theory Spec2Isabelle
  imports Main
begin

section \<open>Syntax trees\<close>

text \<open>
  The generator of \<^verbatim>\<open>create-service.ts\<close> builds and rewrites syntax trees of the
  \<^verbatim>\<open>ast-types\<close> library. The node kinds below are the ones the file builds itself
  (\<^verbatim>\<open>builders.identifier\<close>, \<^verbatim>\<open>builders.objectExpression\<close>,
  \<^verbatim>\<open>builders.spreadProperty\<close>, \<^verbatim>\<open>builders.objectProperty\<close>) and the ones its
  template literals denote (member access, call, await, logical operator, arrow function).
\<close>

datatype ASTNode =
    Identifier (name: string)
  | StringLiteral string
  | ThisExpression
  | Super
  | MemberExpression ASTNode ASTNode
  | CallExpression ASTNode "ASTNode list"
  | AwaitExpression ASTNode
  | LogicalExpression string ASTNode ASTNode
  | ArrowFunctionExpression "ASTNode list" ASTNode
  | ObjectExpression "ASTNode list"
  | SpreadProperty ASTNode
  | ObjectProperty ASTNode ASTNode
  | ExpressionStatement ASTNode
  | ReturnStatement ASTNode

text \<open>
  The members of a class body, as far as the generator inspects them: the loop over
  \<^verbatim>\<open>classDeclaration.body.body\<close> tests \<^verbatim>\<open>namedTypes.ClassMethod.check(member)\<close>,
  \<^verbatim>\<open>namedTypes.Identifier.check(member.key)\<close> and \<^verbatim>\<open>member.key.name\<close>, and
  assigns \<^verbatim>\<open>member.async\<close>.
\<close>

datatype ClassMember =
    ClassMethod (key: ASTNode) (kind: string) (async: bool)
      (params: "ASTNode list") (body: "ASTNode list")
  | ClassProperty ASTNode "ASTNode option"

text \<open>
  Modelled from the spec: the types \<^verbatim>\<open>Entity\<close>, \<^verbatim>\<open>EntityField\<close> and
  \<^verbatim>\<open>Module\<close> (\<^verbatim>\<open>../../../types\<close>) and \<^verbatim>\<open>isPasswordField\<close>
  (\<^verbatim>\<open>util/field\<close>) are not among the sources. Section 3 of the spec: a Field is
  "a name plus a capability tag, notably is-sensitive"; an Entity has "an ordered
  sequence of Fields"; an Output Artifact is "a destination path plus final rendered
  text". The rendered text is whatever the external \<^verbatim>\<open>print\<close> returns, of type \<open>'c\<close>.
\<close>

record EntityField =
  name :: string
  sensitive :: bool

datatype Entity = Entity (fields: "EntityField list")

definition isPasswordField :: "EntityField \<Rightarrow> bool" where
  "isPasswordField field = sensitive field"

record 'c Module =
  path :: string
  code :: 'c

text \<open>A thrown \<^verbatim>\<open>Error\<close> (a rejected promise of the async functions) is a value.\<close>

datatype error = TargetNotFound string

section \<open>The utilities the generator calls\<close>

text \<open>
  The functions imported from \<^verbatim>\<open>util/ast\<close>, \<^verbatim>\<open>util/module\<close>,
  \<^verbatim>\<open>util/nestjs-code-generation\<close>, \<^verbatim>\<open>recast\<close> and the constant
  \<^verbatim>\<open>SRC_DIRECTORY\<close> of \<^verbatim>\<open>../../constants\<close> are not among the sources. They are
  parameters of the model: \<open>'f\<close> is the type of a parsed file, \<open>'r\<close> of a reference
  to a class declaration inside a file, \<open>'i\<close> of an import declaration, \<open>'c\<close> of
  rendered code. A utility that mutates the file in place returns the new file.
  \<open>getBody\<close> and \<open>setBody\<close> read and write \<^verbatim>\<open>classDeclaration.body.body\<close> of
  the class a reference points to, in the file as it currently is. Only
  \<^verbatim>\<open>getClassDeclarationById\<close> can fail (section 4.5 of the spec: "fails with
  TargetNotFound if the expected class declaration cannot be located").
\<close>

record ('f, 'r, 'i, 'c) Util =
  SRC_DIRECTORY :: string
  readFile :: "string \<Rightarrow> 'f"
  print :: "'f \<Rightarrow> 'c"
  relativeImportPath :: "string \<Rightarrow> string \<Rightarrow> string"
  interpolate :: "'f \<Rightarrow> (string \<times> ASTNode) list \<Rightarrow> 'f"
  removeTSIgnoreComments :: "'f \<Rightarrow> 'f"
  removeTSVariableDeclares :: "'f \<Rightarrow> 'f"
  removeTSInterfaceDeclares :: "'f \<Rightarrow> 'f"
  addImports :: "'f \<Rightarrow> 'i list \<Rightarrow> 'f"
  removeTSClassDeclares :: "'f \<Rightarrow> 'f"
  importNames :: "ASTNode list \<Rightarrow> string \<Rightarrow> 'i"
  getClassDeclarationById :: "'f \<Rightarrow> ASTNode \<Rightarrow> error + 'r"
  removeESLintComments :: "'f \<Rightarrow> 'f"
  addIdentifierToConstructorSuperCall :: "'f \<Rightarrow> ASTNode \<Rightarrow> 'f"
  addInjectableDependency :: "'f \<Rightarrow> 'r \<Rightarrow> string \<Rightarrow> ASTNode \<Rightarrow> string \<Rightarrow> 'f"
  getBody :: "'f \<Rightarrow> 'r \<Rightarrow> ClassMember list"
  setBody :: "'f \<Rightarrow> 'r \<Rightarrow> ClassMember list \<Rightarrow> 'f"

section \<open>create-service.ts\<close>

subsection \<open>Constants\<close>

definition ARGS_ID :: ASTNode where
  "ARGS_ID = Identifier ''args''"

definition DATA_ID :: ASTNode where
  "DATA_ID = Identifier ''data''"

definition PASSWORD_SERVICE_ID :: ASTNode where
  "PASSWORD_SERVICE_ID = Identifier ''PasswordService''"

definition PASSWORD_SERVICE_MEMBER_ID :: ASTNode where
  "PASSWORD_SERVICE_MEMBER_ID = Identifier ''passwordService''"

definition PASSWORD_SERVICE_MODULE_PATH :: "('f, 'r, 'i, 'c) Util \<Rightarrow> string" where
  "PASSWORD_SERVICE_MODULE_PATH U = SRC_DIRECTORY U @ ''/auth/password.service.ts''"

text \<open>
  Modelled from the spec: the tagged templates \<^verbatim>\<open>memberExpression\<close>,
  \<^verbatim>\<open>awaitExpression\<close> and \<^verbatim>\<open>logicalExpression\<close> (\<^verbatim>\<open>util/ast\<close>) are not
  among the sources. Section 2 of the spec: "pure constructors for small tree fragments:
  member access, logical/await expressions, object/spread expressions". A template
  literal denotes the tree of the expression it spells, with the embedded nodes in
  their places: \<^verbatim>\<open>memberExpression`this.${PASSWORD_SERVICE_MEMBER_ID}.hash`\<close> is the
  member access below.
\<close>

definition HASH_MEMBER_EXPRESSION :: ASTNode where
  "HASH_MEMBER_EXPRESSION =
     MemberExpression (MemberExpression ThisExpression PASSWORD_SERVICE_MEMBER_ID)
       (Identifier ''hash'')"

definition TRANSFORM_STRING_FIELD_UPDATE_INPUT_ID :: ASTNode where
  "TRANSFORM_STRING_FIELD_UPDATE_INPUT_ID = Identifier ''transformStringFieldUpdateInput''"

definition PRISMA_UTIL_MODULE_PATH :: "('f, 'r, 'i, 'c) Util \<Rightarrow> string" where
  "PRISMA_UTIL_MODULE_PATH U = SRC_DIRECTORY U @ ''/prisma.util.ts''"

definition serviceTemplatePath :: string where
  "serviceTemplatePath = ''./service.template.ts''"

definition serviceBaseTemplatePath :: string where
  "serviceBaseTemplatePath = ''./service.base.template.ts''"

definition PASSWORD_FIELD_ASYNC_METHODS :: "string set" where
  "PASSWORD_FIELD_ASYNC_METHODS = {''create'', ''update''}"

subsection \<open>Naming and the mutation mappings\<close>

definition createServiceId :: "string \<Rightarrow> ASTNode" where
  "createServiceId entityType = Identifier (entityType @ ''Service'')"

definition createServiceBaseId :: "string \<Rightarrow> ASTNode" where
  "createServiceBaseId entityType = Identifier (entityType @ ''ServiceBase'')"

definition createMutationDataMapping :: "ASTNode list \<Rightarrow> ASTNode" where
  "createMutationDataMapping mappings =
     (if mappings = [] then ARGS_ID
      else ObjectExpression
        [SpreadProperty ARGS_ID,
         ObjectProperty DATA_ID
           (ObjectExpression
              (SpreadProperty (MemberExpression ARGS_ID DATA_ID) # mappings))])"

text \<open>
  The object literal bound to \<^verbatim>\<open>mapping\<close> in \<^verbatim>\<open>createServiceModules\<close>
  (lines 48 to 80), as a list of its key and value pairs in source order. The template
  literals \<^verbatim>\<open>awaitExpression`await ${HASH_MEMBER_EXPRESSION}(${ARGS_ID}.${DATA_ID}.${fieldId})`\<close>
  and \<^verbatim>\<open>logicalExpression`${valueMemberExpression} && await
  ${TRANSFORM_STRING_FIELD_UPDATE_INPUT_ID}(${ARGS_ID}.${DATA_ID}.${fieldId},
  (password) => ${HASH_MEMBER_EXPRESSION}(password))`\<close> denote the trees of the
  expressions they spell, for a field name that is an identifier.
\<close>

definition createServiceModules_mapping ::
  "string \<Rightarrow> string \<Rightarrow> EntityField list \<Rightarrow> (string \<times> ASTNode) list"
where
  "createServiceModules_mapping entityName entityType passwordFields =
    [(''SERVICE'', createServiceId entityType),
     (''SERVICE_BASE'', createServiceBaseId entityType),
     (''ENTITY'', Identifier entityType),
     (''FIND_MANY_ARGS'', Identifier (''FindMany'' @ entityType @ ''Args'')),
     (''FIND_ONE_ARGS'', Identifier (''FindOne'' @ entityType @ ''Args'')),
     (''CREATE_ARGS'', Identifier (entityType @ ''CreateArgs'')),
     (''UPDATE_ARGS'', Identifier (entityType @ ''UpdateArgs'')),
     (''DELETE_ARGS'', Identifier (entityType @ ''DeleteArgs'')),
     (''DELEGATE'', Identifier entityName),
     (''CREATE_ARGS_MAPPING'',
        createMutationDataMapping
          (map (\<lambda>field.
                  let fieldId = Identifier (EntityField.name field)
                  in ObjectProperty fieldId
                       (AwaitExpression
                          (CallExpression HASH_MEMBER_EXPRESSION
                             [MemberExpression (MemberExpression ARGS_ID DATA_ID) fieldId])))
             passwordFields)),
     (''UPDATE_ARGS_MAPPING'',
        createMutationDataMapping
          (map (\<lambda>field.
                  let fieldId = Identifier (EntityField.name field);
                      valueMemberExpression =
                        MemberExpression (MemberExpression ARGS_ID DATA_ID) fieldId
                  in ObjectProperty fieldId
                       (LogicalExpression ''&&'' valueMemberExpression
                          (AwaitExpression
                             (CallExpression TRANSFORM_STRING_FIELD_UPDATE_INPUT_ID
                                [MemberExpression (MemberExpression ARGS_ID DATA_ID) fieldId,
                                 ArrowFunctionExpression [Identifier ''password'']
                                   (CallExpression HASH_MEMBER_EXPRESSION
                                      [Identifier ''password''])]))))
             passwordFields))]"

subsection \<open>The two artifacts\<close>

definition createServiceModule ::
  "('f, 'r, 'i, 'c) Util \<Rightarrow> string \<Rightarrow> (string \<times> ASTNode) list \<Rightarrow> EntityField list \<Rightarrow>
     ASTNode \<Rightarrow> ASTNode \<Rightarrow> error + 'c Module"
where
  "createServiceModule U entityName mapping passwordFields serviceId serviceBaseId =
    (let modulePath =
           SRC_DIRECTORY U @ ''/'' @ entityName @ ''/'' @ entityName @ ''.service.ts'';
         moduleBasePath =
           SRC_DIRECTORY U @ ''/'' @ entityName @ ''/base/'' @ entityName @ ''.service.base.ts'';
         file = readFile U serviceTemplatePath;
         file = interpolate U file mapping;
         file = removeTSClassDeclares U file;
         file = addImports U file
                  [importNames U [serviceBaseId]
                     (relativeImportPath U modulePath moduleBasePath)]
     in case (if passwordFields \<noteq> [] then
                (case getClassDeclarationById U file serviceId of
                   Inl err \<Rightarrow> Inl err
                 | Inr classDeclaration \<Rightarrow>
                    (let file = addInjectableDependency U file classDeclaration
                                  (ASTNode.name PASSWORD_SERVICE_MEMBER_ID)
                                  PASSWORD_SERVICE_ID ''protected'';
                         file = addIdentifierToConstructorSuperCall U file
                                  PASSWORD_SERVICE_MEMBER_ID;
                         file = setBody U file classDeclaration
                                  (map (\<lambda>member.
                                          case member of
                                            ClassMethod k kd a ps b \<Rightarrow>
                                              (case k of
                                                 Identifier n \<Rightarrow>
                                                   if n \<in> PASSWORD_FIELD_ASYNC_METHODS
                                                   then ClassMethod k kd True ps b
                                                   else member
                                               | _ \<Rightarrow> member)
                                          | _ \<Rightarrow> member)
                                     (getBody U file classDeclaration));
                         file = addImports U file
                                  [importNames U [PASSWORD_SERVICE_ID]
                                     (relativeImportPath U modulePath
                                        (PASSWORD_SERVICE_MODULE_PATH U))]
                     in Inr file))
              else Inr file) of
          Inl err \<Rightarrow> Inl err
        | Inr file \<Rightarrow>
           (let file = removeTSIgnoreComments U file;
                file = removeESLintComments U file;
                file = removeTSVariableDeclares U file;
                file = removeTSInterfaceDeclares U file
            in Inr \<lparr>path = modulePath, code = print U file\<rparr>))"

definition createServiceBaseModule ::
  "('f, 'r, 'i, 'c) Util \<Rightarrow> string \<Rightarrow> (string \<times> ASTNode) list \<Rightarrow> EntityField list \<Rightarrow>
     ASTNode \<Rightarrow> ASTNode \<Rightarrow> error + 'c Module"
where
  "createServiceBaseModule U entityName mapping passwordFields serviceId serviceBaseId =
    (let moduleBasePath =
           SRC_DIRECTORY U @ ''/'' @ entityName @ ''/base/'' @ entityName @ ''.service.base.ts'';
         file = readFile U serviceBaseTemplatePath;
         file = interpolate U file mapping;
         file = removeTSClassDeclares U file
     in case (if passwordFields \<noteq> [] then
                (case getClassDeclarationById U file serviceBaseId of
                   Inl err \<Rightarrow> Inl err
                 | Inr classDeclaration \<Rightarrow>
                    (let file = addInjectableDependency U file classDeclaration
                                  (ASTNode.name PASSWORD_SERVICE_MEMBER_ID)
                                  PASSWORD_SERVICE_ID ''protected'';
                         file = setBody U file classDeclaration
                                  (map (\<lambda>member.
                                          case member of
                                            ClassMethod k kd a ps b \<Rightarrow>
                                              (case k of
                                                 Identifier n \<Rightarrow>
                                                   if n \<in> PASSWORD_FIELD_ASYNC_METHODS
                                                   then ClassMethod k kd True ps b
                                                   else member
                                               | _ \<Rightarrow> member)
                                          | _ \<Rightarrow> member)
                                     (getBody U file classDeclaration));
                         file = addImports U file
                                  [importNames U [PASSWORD_SERVICE_ID]
                                     (relativeImportPath U moduleBasePath
                                        (PASSWORD_SERVICE_MODULE_PATH U))];
                         file = addImports U file
                                  [importNames U [TRANSFORM_STRING_FIELD_UPDATE_INPUT_ID]
                                     (relativeImportPath U moduleBasePath
                                        (PRISMA_UTIL_MODULE_PATH U))]
                     in Inr file))
              else Inr file) of
          Inl err \<Rightarrow> Inl err
        | Inr file \<Rightarrow>
           (let file = removeTSIgnoreComments U file;
                file = removeESLintComments U file;
                file = removeTSVariableDeclares U file;
                file = removeTSInterfaceDeclares U file
            in Inr \<lparr>path = moduleBasePath, code = print U file\<rparr>))"

text \<open>
  \<^verbatim>\<open>createServiceModules\<close> awaits the two artifacts in turn; an error thrown by the
  first rejects the whole call before the second is started.
\<close>

definition createServiceModules ::
  "('f, 'r, 'i, 'c) Util \<Rightarrow> string \<Rightarrow> string \<Rightarrow> Entity \<Rightarrow> error + 'c Module list"
where
  "createServiceModules U entityName entityType entity =
    (let serviceId = createServiceId entityType;
         serviceBaseId = createServiceBaseId entityType;
         passwordFields = filter isPasswordField (Entity.fields entity);
         mapping = createServiceModules_mapping entityName entityType passwordFields
     in case createServiceModule U entityName mapping passwordFields serviceId serviceBaseId of
          Inl err \<Rightarrow> Inl err
        | Inr serviceModule \<Rightarrow>
           (case createServiceBaseModule U entityName mapping passwordFields
                   serviceId serviceBaseId of
              Inl err \<Rightarrow> Inl err
            | Inr serviceBaseModule \<Rightarrow> Inr [serviceModule, serviceBaseModule]))"

section \<open>Reading the generated expressions\<close>

subsection \<open>Keys of an object expression\<close>

text \<open>
  In a JavaScript object literal a later property with the same key overrides an earlier
  one, and a spread contributes its keys at the place where it stands. \<open>lastProperty k\<close>
  is the last property of the literal that is written with the key \<open>k\<close>.
\<close>

fun propertyKey :: "ASTNode \<Rightarrow> string option" where
  "propertyKey (ObjectProperty (Identifier k) v) = Some k"
| "propertyKey node = None"

fun lastProperty :: "string \<Rightarrow> ASTNode list \<Rightarrow> ASTNode option" where
  "lastProperty k [] = None"
| "lastProperty k (p # ps) =
     (case lastProperty k ps of
        Some q \<Rightarrow> Some q
      | None \<Rightarrow> if propertyKey p = Some k then Some p else None)"

subsection \<open>Evaluation of the expressions the mappings are made of\<close>

text \<open>
  The values and the evaluation rules of JavaScript for the expression forms that occur
  in the two mappings: identifiers, \<^verbatim>\<open>this\<close>, member access, \<^verbatim>\<open>&&\<close> and
  \<^verbatim>\<open>||\<close>, \<^verbatim>\<open>await\<close>, arrow functions and calls. A call of an external function
  (the hash of the password service, the transform helper) is not looked into: the
  parameter \<open>ext\<close> gives its result, and the callee is appended to the list of calls made
  so far, which is threaded through the evaluation.

  An object has its own properties and a prototype, which is \<^verbatim>\<open>null\<close> or an object.
  A property is a data property holding a value, or the accessor \<^verbatim>\<open>__proto__\<close> of
  \<^verbatim>\<open>Object.prototype\<close>, whose getter returns the prototype of the object the member
  access started from. Other accessor properties and proxies are outside this fragment,
  and so is member access on a primitive value or a function (\<open>Unsupported\<close>).
\<close>

datatype JSValue =
    Undefined
  | Null
  | Boolean bool
  | String string
  | Number int
  | Object "(string \<times> Slot) list" JSValue
  | Closure "ASTNode list" ASTNode
  | Builtin string
and Slot =
    Data JSValue
  | ProtoGetter

datatype JSError = TypeError | ReferenceError | Unsupported

fun truthy :: "JSValue \<Rightarrow> bool" where
  "truthy Undefined = False"
| "truthy Null = False"
| "truthy (Boolean b) = b"
| "truthy (String s) = (s \<noteq> [])"
| "truthy (Number n) = (n \<noteq> 0)"
| "truthy (Object ps proto) = True"
| "truthy (Closure ps b) = True"
| "truthy (Builtin f) = True"

text \<open>
  Member access \<^verbatim>\<open>object.p\<close> looks for the property among the object's own
  properties first and then along its prototype chain; a property found nowhere reads
  as \<^verbatim>\<open>undefined\<close>. Reading a property of \<^verbatim>\<open>undefined\<close> or \<^verbatim>\<open>null\<close> throws.
\<close>

fun findSlot :: "JSValue \<Rightarrow> string \<Rightarrow> Slot option" where
  "findSlot (Object ps proto) p =
     (case map_of ps p of Some slot \<Rightarrow> Some slot | None \<Rightarrow> findSlot proto p)"
| "findSlot v p = None"

definition readProperty :: "(string \<times> Slot) list \<Rightarrow> JSValue \<Rightarrow> string \<Rightarrow> JSValue" where
  "readProperty ps proto p =
     (case findSlot (Object ps proto) p of
        None \<Rightarrow> Undefined
      | Some (Data v) \<Rightarrow> v
      | Some ProtoGetter \<Rightarrow> proto)"

fun getProperty :: "JSValue \<Rightarrow> string \<Rightarrow> JSError + JSValue" where
  "getProperty Undefined p = Inl TypeError"
| "getProperty Null p = Inl TypeError"
| "getProperty (Object ps proto) p = Inr (readProperty ps proto p)"
| "getProperty v p = Inl Unsupported"


fun evaluate ::
  "(ASTNode \<Rightarrow> JSValue list \<Rightarrow> JSValue) \<Rightarrow> (string \<Rightarrow> JSValue option) \<Rightarrow> ASTNode \<Rightarrow>
     ASTNode list \<Rightarrow> (JSError + JSValue) \<times> ASTNode list"
and evaluateAll ::
  "(ASTNode \<Rightarrow> JSValue list \<Rightarrow> JSValue) \<Rightarrow> (string \<Rightarrow> JSValue option) \<Rightarrow> ASTNode list \<Rightarrow>
     ASTNode list \<Rightarrow> (JSError + JSValue list) \<times> ASTNode list"
where
  "evaluate ext env (Identifier x) calls =
     (case env x of None \<Rightarrow> (Inl ReferenceError, calls) | Some v \<Rightarrow> (Inr v, calls))"
| "evaluate ext env ThisExpression calls =
     (case env ''this'' of None \<Rightarrow> (Inr Undefined, calls) | Some v \<Rightarrow> (Inr v, calls))"
| "evaluate ext env (MemberExpression object property) calls =
     (case evaluate ext env object calls of
        (Inl err, calls') \<Rightarrow> (Inl err, calls')
      | (Inr v, calls') \<Rightarrow>
          (case property of
             Identifier p \<Rightarrow> (getProperty v p, calls')
           | _ \<Rightarrow> (Inl Unsupported, calls')))"
| "evaluate ext env (LogicalExpression operator left right) calls =
     (case evaluate ext env left calls of
        (Inl err, calls') \<Rightarrow> (Inl err, calls')
      | (Inr v, calls') \<Rightarrow>
          if operator = ''&&'' then
            (if truthy v then evaluate ext env right calls' else (Inr v, calls'))
          else if operator = ''||'' then
            (if truthy v then (Inr v, calls') else evaluate ext env right calls')
          else (Inl Unsupported, calls'))"
| "evaluate ext env (AwaitExpression argument) calls = evaluate ext env argument calls"
| "evaluate ext env (ArrowFunctionExpression ps b) calls = (Inr (Closure ps b), calls)"
| "evaluate ext env (CallExpression callee arguments) calls =
     (case evaluateAll ext env arguments calls of
        (Inl err, calls') \<Rightarrow> (Inl err, calls')
      | (Inr vs, calls') \<Rightarrow> (Inr (ext callee vs), calls' @ [callee]))"
| "evaluate ext env node calls = (Inl Unsupported, calls)"
| "evaluateAll ext env [] calls = (Inr [], calls)"
| "evaluateAll ext env (e # es) calls =
     (case evaluate ext env e calls of
        (Inl err, calls') \<Rightarrow> (Inl err, calls')
      | (Inr v, calls') \<Rightarrow>
          (case evaluateAll ext env es calls' of
             (Inl err, calls'') \<Rightarrow> (Inl err, calls'')
           | (Inr vs, calls'') \<Rightarrow> (Inr (v # vs), calls'')))"


text \<open>
  The values of the two override properties, spelled out node by node:
  \<^verbatim>\<open><field>: await this.passwordService.hash(args.data.<field>)\<close> and
  \<^verbatim>\<open><field>: args.data.<field> && await transformStringFieldUpdateInput(args.data.<field>,
  (password) => this.passwordService.hash(password))\<close>.
\<close>

definition argsDataField :: "string \<Rightarrow> ASTNode" where
  "argsDataField k =
     MemberExpression (MemberExpression (Identifier ''args'') (Identifier ''data''))
       (Identifier k)"

definition thisPasswordServiceHash :: ASTNode where
  "thisPasswordServiceHash =
     MemberExpression (MemberExpression ThisExpression (Identifier ''passwordService''))
       (Identifier ''hash'')"

definition hashedValue :: "string \<Rightarrow> ASTNode" where
  "hashedValue k = AwaitExpression (CallExpression thisPasswordServiceHash [argsDataField k])"


section \<open>A journal of the utility calls\<close>

text \<open>
  The generator is parametric in the utilities, so the order in which it applies them
  to a file, and with which arguments, can be read off by running it on utilities that
  do nothing but write down their own call. A file is then the journal of the calls
  applied to it so far, starting with the \<^verbatim>\<open>readFile\<close> that produced it;
  \<^verbatim>\<open>print\<close> returns the journal. The table \<open>classes\<close> says which class
  declarations \<^verbatim>\<open>getClassDeclarationById\<close> finds, by name, with their member lists;
  a class it does not list is not found. \<open>getBody\<close> returns the members last written
  by \<open>setBody\<close>, and the members of the table when there was no write.
\<close>

datatype Call =
    ReadFile string
  | Interpolate "(string \<times> ASTNode) list"
  | RemoveTSClassDeclares
  | AddImports "(ASTNode list \<times> string) list"
  | AddInjectableDependency ASTNode string ASTNode string
  | AddIdentifierToConstructorSuperCall ASTNode
  | SetBody ASTNode "ClassMember list"
  | RemoveTSIgnoreComments
  | RemoveESLintComments
  | RemoveTSVariableDeclares
  | RemoveTSInterfaceDeclares

fun declaredBody :: "(string \<Rightarrow> ClassMember list option) \<Rightarrow> ASTNode \<Rightarrow> ClassMember list" where
  "declaredBody classes (Identifier n) = (case classes n of Some ms \<Rightarrow> ms | None \<Rightarrow> [])"
| "declaredBody classes node = []"

fun currentBody :: "ClassMember list \<Rightarrow> ASTNode \<Rightarrow> Call list \<Rightarrow> ClassMember list" where
  "currentBody ms r [] = ms"
| "currentBody ms r (SetBody r' ms' # cs) = currentBody (if r' = r then ms' else ms) r cs"
| "currentBody ms r (c # cs) = currentBody ms r cs"

fun findClass :: "(string \<Rightarrow> ClassMember list option) \<Rightarrow> ASTNode \<Rightarrow> error + ASTNode" where
  "findClass classes (Identifier n) =
     (case classes n of Some ms \<Rightarrow> Inr (Identifier n) | None \<Rightarrow> Inl (TargetNotFound n))"
| "findClass classes node = Inl (TargetNotFound [])"

definition journal ::
  "string \<Rightarrow> (string \<Rightarrow> string \<Rightarrow> string) \<Rightarrow> (string \<Rightarrow> ClassMember list option) \<Rightarrow>
     (Call list, ASTNode, ASTNode list \<times> string, Call list) Util"
where
  "journal src rel classes =
     \<lparr> SRC_DIRECTORY = src,
       readFile = (\<lambda>p. [ReadFile p]),
       print = (\<lambda>file. file),
       relativeImportPath = rel,
       interpolate = (\<lambda>file mapping. file @ [Interpolate mapping]),
       removeTSIgnoreComments = (\<lambda>file. file @ [RemoveTSIgnoreComments]),
       removeTSVariableDeclares = (\<lambda>file. file @ [RemoveTSVariableDeclares]),
       removeTSInterfaceDeclares = (\<lambda>file. file @ [RemoveTSInterfaceDeclares]),
       addImports = (\<lambda>file imports. file @ [AddImports imports]),
       removeTSClassDeclares = (\<lambda>file. file @ [RemoveTSClassDeclares]),
       importNames = (\<lambda>names source. (names, source)),
       getClassDeclarationById = (\<lambda>file identifier. findClass classes identifier),
       removeESLintComments = (\<lambda>file. file @ [RemoveESLintComments]),
       addIdentifierToConstructorSuperCall =
         (\<lambda>file identifier. file @ [AddIdentifierToConstructorSuperCall identifier]),
       addInjectableDependency =
         (\<lambda>file r n typeId accessibility.
            file @ [AddInjectableDependency r n typeId accessibility]),
       getBody = (\<lambda>file r. currentBody (declaredBody classes r) r file),
       setBody = (\<lambda>file r ms. file @ [SetBody r ms]) \<rparr>"

text \<open>
  A journal is replayed on any implementation of the utilities by applying, call by
  call, the utility each entry names; \<open>r\<close> is the reference to the class that the
  implementation's lookup returned.
\<close>

fun replayCall :: "('f, 'r, 'i, 'c) Util \<Rightarrow> 'r \<Rightarrow> 'f \<Rightarrow> Call \<Rightarrow> 'f" where
  "replayCall U r file (ReadFile p) = readFile U p"
| "replayCall U r file (Interpolate mapping) = interpolate U file mapping"
| "replayCall U r file RemoveTSClassDeclares = removeTSClassDeclares U file"
| "replayCall U r file (AddImports imports) =
     addImports U file (map (\<lambda>(names, source). importNames U names source) imports)"
| "replayCall U r file (AddInjectableDependency i n typeId accessibility) =
     addInjectableDependency U file r n typeId accessibility"
| "replayCall U r file (AddIdentifierToConstructorSuperCall identifier) =
     addIdentifierToConstructorSuperCall U file identifier"
| "replayCall U r file (SetBody i ms) = setBody U file r ms"
| "replayCall U r file RemoveTSIgnoreComments = removeTSIgnoreComments U file"
| "replayCall U r file RemoveESLintComments = removeESLintComments U file"
| "replayCall U r file RemoveTSVariableDeclares = removeTSVariableDeclares U file"
| "replayCall U r file RemoveTSInterfaceDeclares = removeTSInterfaceDeclares U file"

definition replay :: "('f, 'r, 'i, 'c) Util \<Rightarrow> 'r \<Rightarrow> 'f \<Rightarrow> Call list \<Rightarrow> 'f" where
  "replay U r file calls = foldl (replayCall U r) file calls"

subsection \<open>What a journal shows\<close>


fun injected :: "Call list \<Rightarrow> (string \<times> ASTNode \<times> string) list" where
  "injected [] = []"
| "injected (AddInjectableDependency r n t a # cs) = (n, t, a) # injected cs"
| "injected (c # cs) = injected cs"

fun superCallSplices :: "Call list \<Rightarrow> ASTNode list" where
  "superCallSplices [] = []"
| "superCallSplices (AddIdentifierToConstructorSuperCall i # cs) = i # superCallSplices cs"
| "superCallSplices (c # cs) = superCallSplices cs"

fun bodiesWritten :: "Call list \<Rightarrow> ClassMember list list" where
  "bodiesWritten [] = []"
| "bodiesWritten (SetBody r ms # cs) = ms # bodiesWritten cs"
| "bodiesWritten (c # cs) = bodiesWritten cs"

fun imported :: "Call list \<Rightarrow> (ASTNode list \<times> string) list" where
  "imported [] = []"
| "imported (AddImports is # cs) = is @ imported cs"
| "imported (c # cs) = imported cs"





subsection \<open>Members marked async\<close>

text \<open>
  The name of a class method whose key is an identifier, a member with its async flag
  set, and the member a class body holds after the marking when it held \<open>member\<close>
  before: a class method named \<^verbatim>\<open>create\<close> or \<^verbatim>\<open>update\<close> is async, every other
  member is as it was.
\<close>

fun methodName :: "ClassMember \<Rightarrow> string option" where
  "methodName (ClassMethod (Identifier n) kd a ps b) = Some n"
| "methodName member = None"

fun withAsync :: "ClassMember \<Rightarrow> ClassMember" where
  "withAsync (ClassMethod k kd a ps b) = ClassMethod k kd True ps b"
| "withAsync member = member"

definition markedAsync :: "ClassMember \<Rightarrow> ClassMember" where
  "markedAsync member =
     (if methodName member = Some ''create'' \<or> methodName member = Some ''update''
      then withAsync member else member)"

section \<open>Utilities modelled from the spec\<close>

text \<open>
  Paths as lists of segments: splitting at the separator, joining, dropping the common
  leading segments of two paths, removing the extension of the last segment, and
  writing every separator as a forward slash.
\<close>

fun splitPath :: "string \<Rightarrow> string list" where
  "splitPath [] = [[]]"
| "splitPath (c # cs) =
     (if c = CHR ''/'' then [] # splitPath cs
      else (case splitPath cs of [] \<Rightarrow> [[c]] | s # ss \<Rightarrow> (c # s) # ss))"

fun joinPath :: "string list \<Rightarrow> string" where
  "joinPath [] = []"
| "joinPath [s] = s"
| "joinPath (s # ss) = s @ ''/'' @ joinPath ss"

fun dropCommonPrefix :: "string list \<Rightarrow> string list \<Rightarrow> string list \<times> string list" where
  "dropCommonPrefix (x # xs) (y # ys) =
     (if x = y then dropCommonPrefix xs ys else (x # xs, y # ys))"
| "dropCommonPrefix xs ys = (xs, ys)"

definition removeExt :: "string \<Rightarrow> string" where
  "removeExt p =
     (case dropWhile (\<lambda>c. c \<noteq> CHR ''.'' \<and> c \<noteq> CHR ''/'') (rev p) of
        [] \<Rightarrow> p
      | c # base \<Rightarrow> if c = CHR ''.'' then rev base else p)"

definition normalizeSeparators :: "string \<Rightarrow> string" where
  "normalizeSeparators p = map (\<lambda>c. if c = CHR 0x5C then CHR ''/'' else c) p"

text \<open>
  Modelled from the spec: \<^verbatim>\<open>relativeImportPath\<close> (\<^verbatim>\<open>util/module\<close>) is not among
  the sources. Section 6 of the spec: "computes an import path between two artifact
  destinations; must normalize directory separators and omit extensions per the target
  ecosystem's import convention"; section 4.5: "All import paths are computed relative
  to the importing artifact's own destination path"; section 8: the path from
  \<^verbatim>\<open>X/e/e.service.ts\<close> to \<^verbatim>\<open>X/e/base/e.service.base.ts\<close> is
  \<^verbatim>\<open>./base/e.service.base\<close>. The path leads from the directory of \<open>from\<close> to
  \<open>to\<close> without its extension: one \<^verbatim>\<open>..\<close> for every directory of \<open>from\<close> below
  the common prefix, then the rest of \<open>to\<close>; it starts with \<^verbatim>\<open>./\<close> when it does not
  start with a dot, and its separators are forward slashes.
\<close>

definition relativeImportPath_spec :: "string \<Rightarrow> string \<Rightarrow> string" where
  "relativeImportPath_spec from to =
     (let (ups, downs) = dropCommonPrefix (butlast (splitPath from)) (splitPath (removeExt to));
          relativePath = joinPath (map (\<lambda>d. ''..'') ups @ downs)
      in normalizeSeparators
           (if relativePath \<noteq> [] \<and> hd relativePath = CHR ''.'' then relativePath
            else ''./'' @ relativePath))"




section \<open>Properties\<close>

subsection \<open>Auxiliary facts\<close>

lemma lastProperty_spread:
  "lastProperty k (SpreadProperty e # ps) = lastProperty k ps"
  by (simp split: option.splits)

lemma lastProperty_map_origin:
  assumes "\<And>x. propertyKey (g x) = Some (h x)"
  shows "lastProperty k (map g xs) = Some q \<Longrightarrow> \<exists>y \<in> set xs. h y = k \<and> q = g y"
  by (induction xs) (auto simp: assms split: option.splits if_splits)

lemma lastProperty_map_same:
  assumes key: "\<And>x. propertyKey (g x) = Some (h x)"
      and same: "\<And>x y. h x = h y \<Longrightarrow> g x = g y"
      and mem: "f \<in> set xs"
  shows "lastProperty (h f) (map g xs) = Some (g f)"
  using mem
proof (induction xs)
  case Nil
  then show ?case by simp
next
  case (Cons x xs)
  show ?case
  proof (cases "lastProperty (h f) (map g xs)")
    case None
    have "f \<notin> set xs"
    proof
      assume "f \<in> set xs"
      from Cons.IH[OF this] None show False by simp
    qed
    with Cons.prems have "f = x" by simp
    with None key show ?thesis by simp
  next
    case (Some q)
    from lastProperty_map_origin[of g h, OF key Some]
    obtain y where "h y = h f" "q = g y" by blast
    with Some same[of y f] show ?thesis by simp
  qed
qed

text \<open>The loop over the class members, as written in both artifact functions.\<close>

lemma loop_is_markedAsync:
  "(\<lambda>member. case member of
       ClassMethod k kd a ps b \<Rightarrow>
         (case k of Identifier n \<Rightarrow>
            if n \<in> PASSWORD_FIELD_ASYNC_METHODS then ClassMethod k kd True ps b else member
          | _ \<Rightarrow> member)
     | _ \<Rightarrow> member) = markedAsync"
  by (rule ext) (auto simp: markedAsync_def PASSWORD_FIELD_ASYNC_METHODS_def
      split: ClassMember.splits ASTNode.splits)

text \<open>
  The two artifact functions for every implementation of the utilities, when the entity
  has a password field and the class is found.
\<close>

lemma createServiceModule_with_password_fields:
  assumes "passwordFields \<noteq> []"
      and "file = addImports U
                    (removeTSClassDeclares U
                       (interpolate U (readFile U serviceTemplatePath) mapping))
                    [importNames U [serviceBaseId]
                       (relativeImportPath U
                          (SRC_DIRECTORY U @ ''/'' @ entityName @ ''/'' @ entityName
                             @ ''.service.ts'')
                          (SRC_DIRECTORY U @ ''/'' @ entityName @ ''/base/'' @ entityName
                             @ ''.service.base.ts''))]"
      and "getClassDeclarationById U file serviceId = Inr classDeclaration"
      and "spliced = addIdentifierToConstructorSuperCall U
                       (addInjectableDependency U file classDeclaration ''passwordService''
                          (Identifier ''PasswordService'') ''protected'')
                       (Identifier ''passwordService'')"
  shows "createServiceModule U entityName mapping passwordFields serviceId serviceBaseId =
           Inr \<lparr>path = SRC_DIRECTORY U @ ''/'' @ entityName @ ''/'' @ entityName
                         @ ''.service.ts'',
                code = print U
                  (removeTSInterfaceDeclares U (removeTSVariableDeclares U
                    (removeESLintComments U (removeTSIgnoreComments U
                      (addImports U
                         (setBody U spliced classDeclaration
                            (map markedAsync (getBody U spliced classDeclaration)))
                         [importNames U [Identifier ''PasswordService'']
                            (relativeImportPath U
                               (SRC_DIRECTORY U @ ''/'' @ entityName @ ''/'' @ entityName
                                  @ ''.service.ts'')
                               (SRC_DIRECTORY U @ ''/auth/password.service.ts''))])))))\<rparr>"
  using assms
  unfolding createServiceModule_def loop_is_markedAsync
  by (simp add: Let_def PASSWORD_SERVICE_MEMBER_ID_def PASSWORD_SERVICE_ID_def
      PASSWORD_SERVICE_MODULE_PATH_def)

lemma createServiceBaseModule_with_password_fields:
  assumes "passwordFields \<noteq> []"
      and "file = removeTSClassDeclares U
                    (interpolate U (readFile U serviceBaseTemplatePath) mapping)"
      and "getClassDeclarationById U file serviceBaseId = Inr classDeclaration"
      and "injected = addInjectableDependency U file classDeclaration ''passwordService''
                        (Identifier ''PasswordService'') ''protected''"
  shows "createServiceBaseModule U entityName mapping passwordFields serviceId serviceBaseId =
           Inr \<lparr>path = SRC_DIRECTORY U @ ''/'' @ entityName @ ''/base/'' @ entityName
                         @ ''.service.base.ts'',
                code = print U
                  (removeTSInterfaceDeclares U (removeTSVariableDeclares U
                    (removeESLintComments U (removeTSIgnoreComments U
                      (addImports U
                         (addImports U
                            (setBody U injected classDeclaration
                               (map markedAsync (getBody U injected classDeclaration)))
                            [importNames U [Identifier ''PasswordService'']
                               (relativeImportPath U
                                  (SRC_DIRECTORY U @ ''/'' @ entityName @ ''/base/''
                                     @ entityName @ ''.service.base.ts'')
                                  (SRC_DIRECTORY U @ ''/auth/password.service.ts''))])
                         [importNames U [Identifier ''transformStringFieldUpdateInput'']
                            (relativeImportPath U
                               (SRC_DIRECTORY U @ ''/'' @ entityName @ ''/base/''
                                  @ entityName @ ''.service.base.ts'')
                               (SRC_DIRECTORY U @ ''/prisma.util.ts''))])))))\<rparr>"
  using assms
  unfolding createServiceBaseModule_def loop_is_markedAsync
  by (simp add: Let_def PASSWORD_SERVICE_MEMBER_ID_def PASSWORD_SERVICE_ID_def
      PASSWORD_SERVICE_MODULE_PATH_def PRISMA_UTIL_MODULE_PATH_def
      TRANSFORM_STRING_FIELD_UPDATE_INPUT_ID_def)

text \<open>
  The same runs on the journalling utilities: the journal lists the calls of the
  compositions above, in the order of application.
\<close>

lemma journal_createServiceModule:
  "createServiceModule (journal src rel classes) entityName mapping passwordFields
     (Identifier sid) serviceBaseId =
   (if passwordFields = [] then
      Inr \<lparr>path = src @ ''/'' @ entityName @ ''/'' @ entityName @ ''.service.ts'',
           code = [ReadFile serviceTemplatePath, Interpolate mapping, RemoveTSClassDeclares,
                   AddImports [([serviceBaseId],
                     rel (src @ ''/'' @ entityName @ ''/'' @ entityName @ ''.service.ts'')
                         (src @ ''/'' @ entityName @ ''/base/'' @ entityName @ ''.service.base.ts''))],
                   RemoveTSIgnoreComments, RemoveESLintComments,
                   RemoveTSVariableDeclares, RemoveTSInterfaceDeclares]\<rparr>
    else
      (case classes sid of
         None \<Rightarrow> Inl (TargetNotFound sid)
       | Some ms \<Rightarrow>
          Inr \<lparr>path = src @ ''/'' @ entityName @ ''/'' @ entityName @ ''.service.ts'',
               code = [ReadFile serviceTemplatePath, Interpolate mapping, RemoveTSClassDeclares,
                   AddImports [([serviceBaseId],
                     rel (src @ ''/'' @ entityName @ ''/'' @ entityName @ ''.service.ts'')
                         (src @ ''/'' @ entityName @ ''/base/'' @ entityName @ ''.service.base.ts''))],
                   AddInjectableDependency (Identifier sid) ''passwordService''
                     (Identifier ''PasswordService'') ''protected'',
                   AddIdentifierToConstructorSuperCall (Identifier ''passwordService''),
                   SetBody (Identifier sid) (map markedAsync ms),
                   AddImports [([Identifier ''PasswordService''],
                     rel (src @ ''/'' @ entityName @ ''/'' @ entityName @ ''.service.ts'')
                         (src @ ''/auth/password.service.ts''))],
                   RemoveTSIgnoreComments, RemoveESLintComments,
                   RemoveTSVariableDeclares, RemoveTSInterfaceDeclares]\<rparr>))"
  unfolding createServiceModule_def loop_is_markedAsync
  by (simp add: journal_def Let_def PASSWORD_SERVICE_MEMBER_ID_def PASSWORD_SERVICE_ID_def
      PASSWORD_SERVICE_MODULE_PATH_def split: option.splits)

lemma journal_createServiceBaseModule:
  "createServiceBaseModule (journal src rel classes) entityName mapping passwordFields
     serviceId (Identifier sbid) =
   (if passwordFields = [] then
      Inr \<lparr>path = src @ ''/'' @ entityName @ ''/base/'' @ entityName @ ''.service.base.ts'',
           code = [ReadFile serviceBaseTemplatePath, Interpolate mapping, RemoveTSClassDeclares,
                   RemoveTSIgnoreComments, RemoveESLintComments,
                   RemoveTSVariableDeclares, RemoveTSInterfaceDeclares]\<rparr>
    else
      (case classes sbid of
         None \<Rightarrow> Inl (TargetNotFound sbid)
       | Some ms \<Rightarrow>
          Inr \<lparr>path = src @ ''/'' @ entityName @ ''/base/'' @ entityName @ ''.service.base.ts'',
               code = [ReadFile serviceBaseTemplatePath, Interpolate mapping, RemoveTSClassDeclares,
                   AddInjectableDependency (Identifier sbid) ''passwordService''
                     (Identifier ''PasswordService'') ''protected'',
                   SetBody (Identifier sbid) (map markedAsync ms),
                   AddImports [([Identifier ''PasswordService''],
                     rel (src @ ''/'' @ entityName @ ''/base/'' @ entityName @ ''.service.base.ts'')
                         (src @ ''/auth/password.service.ts''))],
                   AddImports [([Identifier ''transformStringFieldUpdateInput''],
                     rel (src @ ''/'' @ entityName @ ''/base/'' @ entityName @ ''.service.base.ts'')
                         (src @ ''/prisma.util.ts''))],
                   RemoveTSIgnoreComments, RemoveESLintComments,
                   RemoveTSVariableDeclares, RemoveTSInterfaceDeclares]\<rparr>))"
  unfolding createServiceBaseModule_def loop_is_markedAsync
  by (simp add: journal_def Let_def PASSWORD_SERVICE_MEMBER_ID_def PASSWORD_SERVICE_ID_def
      PASSWORD_SERVICE_MODULE_PATH_def PRISMA_UTIL_MODULE_PATH_def
      TRANSFORM_STRING_FIELD_UPDATE_INPUT_ID_def split: option.splits)

lemma journal_createServiceModules:
  "createServiceModules (journal src rel classes) entityName entityType entity =
    (case createServiceModule (journal src rel classes) entityName
            (createServiceModules_mapping entityName entityType
               (filter isPasswordField (Entity.fields entity)))
            (filter isPasswordField (Entity.fields entity))
            (Identifier (entityType @ ''Service'')) (Identifier (entityType @ ''ServiceBase'')) of
       Inl err \<Rightarrow> Inl err
     | Inr serviceModule \<Rightarrow>
        (case createServiceBaseModule (journal src rel classes) entityName
            (createServiceModules_mapping entityName entityType
               (filter isPasswordField (Entity.fields entity)))
            (filter isPasswordField (Entity.fields entity))
            (Identifier (entityType @ ''Service'')) (Identifier (entityType @ ''ServiceBase'')) of
           Inl err \<Rightarrow> Inl err
         | Inr serviceBaseModule \<Rightarrow> Inr [serviceModule, serviceBaseModule]))"
  by (simp add: createServiceModules_def createServiceId_def createServiceBaseId_def Let_def)

lemmas journal_run =
  journal_createServiceModules journal_createServiceModule journal_createServiceBaseModule

text \<open>
  The journal accounts for every implementation of the utilities: when the lookup of the
  implementation finds the class, and the table of the journal lists the class with the
  members the implementation holds for it at the time of the loop, the artifact the
  implementation yields is the print of the replayed journal, at the journal's path.
\<close>

lemma createServiceModule_replays_journal:
  assumes "passwordFields \<noteq> [] \<Longrightarrow>
             getClassDeclarationById U
               (addImports U
                  (removeTSClassDeclares U
                     (interpolate U (readFile U serviceTemplatePath) mapping))
                  [importNames U [serviceBaseId]
                     (relativeImportPath U
                        (SRC_DIRECTORY U @ ''/'' @ entityName @ ''/'' @ entityName
                           @ ''.service.ts'')
                        (SRC_DIRECTORY U @ ''/'' @ entityName @ ''/base/'' @ entityName
                           @ ''.service.base.ts''))])
               (Identifier sid) = Inr r
           \<and> classes sid = Some (getBody U
               (addIdentifierToConstructorSuperCall U
                  (addInjectableDependency U
                     (addImports U
                        (removeTSClassDeclares U
                           (interpolate U (readFile U serviceTemplatePath) mapping))
                        [importNames U [serviceBaseId]
                           (relativeImportPath U
                              (SRC_DIRECTORY U @ ''/'' @ entityName @ ''/'' @ entityName
                                 @ ''.service.ts'')
                              (SRC_DIRECTORY U @ ''/'' @ entityName @ ''/base/'' @ entityName
                                 @ ''.service.base.ts''))])
                     r ''passwordService'' (Identifier ''PasswordService'') ''protected'')
                  (Identifier ''passwordService'')) r)"
  shows "\<exists>journalled.
           createServiceModule (journal (SRC_DIRECTORY U) (relativeImportPath U) classes)
             entityName mapping passwordFields (Identifier sid) serviceBaseId = Inr journalled
         \<and> createServiceModule U entityName mapping passwordFields (Identifier sid) serviceBaseId
             = Inr \<lparr>path = path journalled,
                    code = print U (replay U r file0 (code journalled))\<rparr>"
proof (cases "passwordFields = []")
  case True
  then show ?thesis
    unfolding journal_createServiceModule
    by (simp add: createServiceModule_def Let_def replay_def)
next
  case False
  from assms[OF False] show ?thesis
    unfolding journal_createServiceModule
    unfolding createServiceModule_def loop_is_markedAsync
    using False
    by (simp add: replay_def Let_def PASSWORD_SERVICE_MEMBER_ID_def PASSWORD_SERVICE_ID_def
        PASSWORD_SERVICE_MODULE_PATH_def)
qed

lemma createServiceBaseModule_replays_journal:
  assumes "passwordFields \<noteq> [] \<Longrightarrow>
             getClassDeclarationById U
               (removeTSClassDeclares U
                  (interpolate U (readFile U serviceBaseTemplatePath) mapping))
               (Identifier sbid) = Inr r
           \<and> classes sbid = Some (getBody U
               (addInjectableDependency U
                  (removeTSClassDeclares U
                     (interpolate U (readFile U serviceBaseTemplatePath) mapping))
                  r ''passwordService'' (Identifier ''PasswordService'') ''protected'') r)"
  shows "\<exists>journalled.
           createServiceBaseModule (journal (SRC_DIRECTORY U) (relativeImportPath U) classes)
             entityName mapping passwordFields serviceId (Identifier sbid) = Inr journalled
         \<and> createServiceBaseModule U entityName mapping passwordFields serviceId
             (Identifier sbid)
             = Inr \<lparr>path = path journalled,
                    code = print U (replay U r file0 (code journalled))\<rparr>"
proof (cases "passwordFields = []")
  case True
  then show ?thesis
    unfolding journal_createServiceBaseModule
    by (simp add: createServiceBaseModule_def Let_def replay_def)
next
  case False
  from assms[OF False] show ?thesis
    unfolding journal_createServiceBaseModule
    unfolding createServiceBaseModule_def loop_is_markedAsync
    using False
    by (simp add: replay_def Let_def PASSWORD_SERVICE_MEMBER_ID_def PASSWORD_SERVICE_ID_def
        PASSWORD_SERVICE_MODULE_PATH_def PRISMA_UTIL_MODULE_PATH_def
        TRANSFORM_STRING_FIELD_UPDATE_INPUT_ID_def)
qed


lemma createServiceModule_Inl_iff:
  "createServiceModule U entityName mapping passwordFields serviceId serviceBaseId = Inl err
   \<longleftrightarrow> passwordFields \<noteq> []
     \<and> getClassDeclarationById U
         (addImports U
            (removeTSClassDeclares U (interpolate U (readFile U serviceTemplatePath) mapping))
            [importNames U [serviceBaseId]
               (relativeImportPath U
                  (SRC_DIRECTORY U @ ''/'' @ entityName @ ''/'' @ entityName @ ''.service.ts'')
                  (SRC_DIRECTORY U @ ''/'' @ entityName @ ''/base/'' @ entityName
                     @ ''.service.base.ts''))])
         serviceId = Inl err"
  by (simp add: createServiceModule_def Let_def split: sum.splits)

lemma createServiceBaseModule_Inl_iff:
  "createServiceBaseModule U entityName mapping passwordFields serviceId serviceBaseId = Inl err
   \<longleftrightarrow> passwordFields \<noteq> []
     \<and> getClassDeclarationById U
         (removeTSClassDeclares U (interpolate U (readFile U serviceBaseTemplatePath) mapping))
         serviceBaseId = Inl err"
  by (simp add: createServiceBaseModule_def Let_def split: sum.splits)

lemma createServiceModules_Inl_iff:
  "createServiceModules U entityName entityType entity = Inl err
   \<longleftrightarrow> (let passwordFields = filter isPasswordField (Entity.fields entity);
            mapping = createServiceModules_mapping entityName entityType passwordFields
        in createServiceModule U entityName mapping passwordFields
             (createServiceId entityType) (createServiceBaseId entityType) = Inl err
         \<or> (\<exists>serviceModule.
               createServiceModule U entityName mapping passwordFields
                 (createServiceId entityType) (createServiceBaseId entityType)
                 = Inr serviceModule)
           \<and> createServiceBaseModule U entityName mapping passwordFields
               (createServiceId entityType) (createServiceBaseId entityType) = Inl err)"
  by (auto simp: createServiceModules_def Let_def split: sum.splits)










subsection \<open>The create-args mapping\<close>

text \<open>
  C1. For every entity with at least one password field, the value of
  \<^verbatim>\<open>CREATE_ARGS_MAPPING\<close> in the mapping built by \<^verbatim>\<open>createServiceModules\<close> is the
  object expression \<^verbatim>\<open>{...args, data: {...args.data, f1: await
  this.passwordService.hash(args.data.f1), ...}}\<close> with one override per password field,
  in field order, after the spread of \<^verbatim>\<open>args.data\<close>; and for every password field
  of the entity, wherever it stands in the field list, the last property of the data
  object written with the field's key is that hashed override.
\<close>

theorem create_args_mapping_override_wins:
  assumes "filter isPasswordField (Entity.fields entity) \<noteq> []"
  shows "map_of (createServiceModules_mapping entityName entityType
                   (filter isPasswordField (Entity.fields entity))) ''CREATE_ARGS_MAPPING''
         = Some (ObjectExpression
             [SpreadProperty (Identifier ''args''),
              ObjectProperty (Identifier ''data'')
                (ObjectExpression
                  (SpreadProperty (MemberExpression (Identifier ''args'') (Identifier ''data''))
                   # map (\<lambda>field. ObjectProperty (Identifier (EntityField.name field))
                                     (hashedValue (EntityField.name field)))
                       (filter isPasswordField (Entity.fields entity))))])
       \<and> (\<forall>field \<in> set (Entity.fields entity). isPasswordField field \<longrightarrow>
            lastProperty (EntityField.name field)
              (SpreadProperty (MemberExpression (Identifier ''args'') (Identifier ''data''))
               # map (\<lambda>field. ObjectProperty (Identifier (EntityField.name field))
                                 (hashedValue (EntityField.name field)))
                   (filter isPasswordField (Entity.fields entity)))
            = Some (ObjectProperty (Identifier (EntityField.name field))
                      (hashedValue (EntityField.name field))))"
proof (intro conjI ballI impI)
  show "map_of (createServiceModules_mapping entityName entityType
                   (filter isPasswordField (Entity.fields entity))) ''CREATE_ARGS_MAPPING''
         = Some (ObjectExpression
             [SpreadProperty (Identifier ''args''),
              ObjectProperty (Identifier ''data'')
                (ObjectExpression
                  (SpreadProperty (MemberExpression (Identifier ''args'') (Identifier ''data''))
                   # map (\<lambda>field. ObjectProperty (Identifier (EntityField.name field))
                                     (hashedValue (EntityField.name field)))
                       (filter isPasswordField (Entity.fields entity))))])"
    using assms
    by (simp add: createServiceModules_mapping_def createMutationDataMapping_def ARGS_ID_def
        DATA_ID_def hashedValue_def argsDataField_def thisPasswordServiceHash_def
        HASH_MEMBER_EXPRESSION_def PASSWORD_SERVICE_MEMBER_ID_def Let_def)
next
  fix field
  assume "field \<in> set (Entity.fields entity)" and "isPasswordField field"
  then have mem: "field \<in> set (filter isPasswordField (Entity.fields entity))"
    by simp
  show "lastProperty (EntityField.name field)
              (SpreadProperty (MemberExpression (Identifier ''args'') (Identifier ''data''))
               # map (\<lambda>field. ObjectProperty (Identifier (EntityField.name field))
                                 (hashedValue (EntityField.name field)))
                   (filter isPasswordField (Entity.fields entity)))
            = Some (ObjectProperty (Identifier (EntityField.name field))
                      (hashedValue (EntityField.name field)))"
    unfolding lastProperty_spread
    by (rule lastProperty_map_same[where h = EntityField.name, OF _ _ mem]) simp_all
qed

theorem create_args_mapping_override_wins_witness:
  "filter isPasswordField
     (Entity.fields (Entity [\<lparr>name = ''password'', sensitive = True\<rparr>,
                             \<lparr>name = ''username'', sensitive = False\<rparr>])) \<noteq> []
   \<and> map_of (createServiceModules_mapping ''user'' ''User''
               [\<lparr>name = ''password'', sensitive = True\<rparr>]) ''CREATE_ARGS_MAPPING''
       = Some (ObjectExpression
           [SpreadProperty (Identifier ''args''),
            ObjectProperty (Identifier ''data'')
              (ObjectExpression
                 [SpreadProperty (MemberExpression (Identifier ''args'') (Identifier ''data'')),
                  ObjectProperty (Identifier ''password'') (hashedValue ''password'')])])
   \<and> lastProperty ''password''
         [SpreadProperty (MemberExpression (Identifier ''args'') (Identifier ''data'')),
          ObjectProperty (Identifier ''password'') (hashedValue ''password'')]
       = Some (ObjectProperty (Identifier ''password'') (hashedValue ''password''))"
  using create_args_mapping_override_wins
    [of "Entity [\<lparr>name = ''password'', sensitive = True\<rparr>,
                 \<lparr>name = ''username'', sensitive = False\<rparr>]" "''user''" "''User''"]
  by (simp add: isPasswordField_def)

subsection \<open>The update-args mapping\<close>




subsection \<open>The pair of artifacts\<close>







text \<open>
  C6. For every entity with no password field and for every implementation of the
  utilities, the concrete artifact is the printed result of interpolating the service
  template, removing the class declares, adding the import of the base class and
  removing the ignore comments, lint comments, variable declares and interface
  declares; the base artifact is the same without the added import. Both mapping slots
  are the identifier \<^verbatim>\<open>args\<close>. In the journals there is no dependency injection,
  no super-call splice and no write to a member list; the only import added is that of
  the base class, in the concrete artifact.
\<close>

theorem no_password_fields_stability:
  assumes "filter isPasswordField (Entity.fields entity) = []"
  shows "createServiceModules U entityName entityType entity =
           Inr [\<lparr>path = SRC_DIRECTORY U @ ''/'' @ entityName @ ''/'' @ entityName @ ''.service.ts'',
                 code = print U
                   (removeTSInterfaceDeclares U (removeTSVariableDeclares U
                     (removeESLintComments U (removeTSIgnoreComments U
                       (addImports U
                          (removeTSClassDeclares U
                             (interpolate U (readFile U ''./service.template.ts'')
                                (createServiceModules_mapping entityName entityType [])))
                          [importNames U [Identifier (entityType @ ''ServiceBase'')]
                             (relativeImportPath U
                                (SRC_DIRECTORY U @ ''/'' @ entityName @ ''/'' @ entityName
                                   @ ''.service.ts'')
                                (SRC_DIRECTORY U @ ''/'' @ entityName @ ''/base/'' @ entityName
                                   @ ''.service.base.ts''))])))))\<rparr>,
                \<lparr>path = SRC_DIRECTORY U @ ''/'' @ entityName @ ''/base/'' @ entityName
                          @ ''.service.base.ts'',
                 code = print U
                   (removeTSInterfaceDeclares U (removeTSVariableDeclares U
                     (removeESLintComments U (removeTSIgnoreComments U
                       (removeTSClassDeclares U
                          (interpolate U (readFile U ''./service.base.template.ts'')
                             (createServiceModules_mapping entityName entityType [])))))))\<rparr>]
       \<and> map_of (createServiceModules_mapping entityName entityType []) ''CREATE_ARGS_MAPPING''
           = Some (Identifier ''args'')
       \<and> map_of (createServiceModules_mapping entityName entityType []) ''UPDATE_ARGS_MAPPING''
           = Some (Identifier ''args'')
       \<and> (\<exists>serviceModule serviceBaseModule.
            createServiceModules (journal src rel classes) entityName entityType entity
              = Inr [serviceModule, serviceBaseModule]
          \<and> injected (code serviceModule) = [] \<and> injected (code serviceBaseModule) = []
          \<and> superCallSplices (code serviceModule) = []
          \<and> superCallSplices (code serviceBaseModule) = []
          \<and> bodiesWritten (code serviceModule) = []
          \<and> bodiesWritten (code serviceBaseModule) = []
          \<and> imported (code serviceModule) =
               [([Identifier (entityType @ ''ServiceBase'')],
                 rel (src @ ''/'' @ entityName @ ''/'' @ entityName @ ''.service.ts'')
                     (src @ ''/'' @ entityName @ ''/base/'' @ entityName @ ''.service.base.ts''))]
          \<and> imported (code serviceBaseModule) = [])"
proof (intro conjI)
  show "createServiceModules U entityName entityType entity =
           Inr [\<lparr>path = SRC_DIRECTORY U @ ''/'' @ entityName @ ''/'' @ entityName @ ''.service.ts'',
                 code = print U
                   (removeTSInterfaceDeclares U (removeTSVariableDeclares U
                     (removeESLintComments U (removeTSIgnoreComments U
                       (addImports U
                          (removeTSClassDeclares U
                             (interpolate U (readFile U ''./service.template.ts'')
                                (createServiceModules_mapping entityName entityType [])))
                          [importNames U [Identifier (entityType @ ''ServiceBase'')]
                             (relativeImportPath U
                                (SRC_DIRECTORY U @ ''/'' @ entityName @ ''/'' @ entityName
                                   @ ''.service.ts'')
                                (SRC_DIRECTORY U @ ''/'' @ entityName @ ''/base/'' @ entityName
                                   @ ''.service.base.ts''))])))))\<rparr>,
                \<lparr>path = SRC_DIRECTORY U @ ''/'' @ entityName @ ''/base/'' @ entityName
                          @ ''.service.base.ts'',
                 code = print U
                   (removeTSInterfaceDeclares U (removeTSVariableDeclares U
                     (removeESLintComments U (removeTSIgnoreComments U
                       (removeTSClassDeclares U
                          (interpolate U (readFile U ''./service.base.template.ts'')
                             (createServiceModules_mapping entityName entityType [])))))))\<rparr>]"
    using assms
    by (simp add: createServiceModules_def createServiceModule_def createServiceBaseModule_def
        Let_def createServiceBaseId_def serviceTemplatePath_def serviceBaseTemplatePath_def)
next
  show "map_of (createServiceModules_mapping entityName entityType []) ''CREATE_ARGS_MAPPING''
           = Some (Identifier ''args'')"
    by (simp add: createServiceModules_mapping_def createMutationDataMapping_def ARGS_ID_def)
next
  show "map_of (createServiceModules_mapping entityName entityType []) ''UPDATE_ARGS_MAPPING''
           = Some (Identifier ''args'')"
    by (simp add: createServiceModules_mapping_def createMutationDataMapping_def ARGS_ID_def)
next
  show "\<exists>serviceModule serviceBaseModule.
            createServiceModules (journal src rel classes) entityName entityType entity
              = Inr [serviceModule, serviceBaseModule]
          \<and> injected (code serviceModule) = [] \<and> injected (code serviceBaseModule) = []
          \<and> superCallSplices (code serviceModule) = []
          \<and> superCallSplices (code serviceBaseModule) = []
          \<and> bodiesWritten (code serviceModule) = []
          \<and> bodiesWritten (code serviceBaseModule) = []
          \<and> imported (code serviceModule) =
               [([Identifier (entityType @ ''ServiceBase'')],
                 rel (src @ ''/'' @ entityName @ ''/'' @ entityName @ ''.service.ts'')
                     (src @ ''/'' @ entityName @ ''/base/'' @ entityName @ ''.service.base.ts''))]
          \<and> imported (code serviceBaseModule) = []"
    using assms
    unfolding journal_run
    by simp
qed

theorem no_password_fields_stability_witness:
  "filter isPasswordField (Entity.fields (Entity [\<lparr>name = ''label'', sensitive = False\<rparr>])) = []
   \<and> createServiceModules (journal ''server/src'' relativeImportPath_spec (\<lambda>n. None))
       ''tag'' ''Tag'' (Entity [\<lparr>name = ''label'', sensitive = False\<rparr>])
     = Inr [\<lparr>path = ''server/src/tag/tag.service.ts'',
            code = [ReadFile ''./service.template.ts'',
                    Interpolate (createServiceModules_mapping ''tag'' ''Tag'' []),
                    RemoveTSClassDeclares,
                    AddImports [([Identifier ''TagServiceBase''], ''./base/tag.service.base'')],
                    RemoveTSIgnoreComments, RemoveESLintComments,
                    RemoveTSVariableDeclares, RemoveTSInterfaceDeclares]\<rparr>,
           \<lparr>path = ''server/src/tag/base/tag.service.base.ts'',
            code = [ReadFile ''./service.base.template.ts'',
                    Interpolate (createServiceModules_mapping ''tag'' ''Tag'' []),
                    RemoveTSClassDeclares,
                    RemoveTSIgnoreComments, RemoveESLintComments,
                    RemoveTSVariableDeclares, RemoveTSInterfaceDeclares]\<rparr>]
   \<and> map_of (createServiceModules_mapping ''tag'' ''Tag'' []) ''CREATE_ARGS_MAPPING''
       = Some (Identifier ''args'')
   \<and> map_of (createServiceModules_mapping ''tag'' ''Tag'' []) ''UPDATE_ARGS_MAPPING''
       = Some (Identifier ''args'')"
proof -
  have fields: "filter isPasswordField
     (Entity.fields (Entity [\<lparr>name = ''label'', sensitive = False\<rparr>])) = []"
    by (simp add: isPasswordField_def)
  show ?thesis
    using no_password_fields_stability[OF fields,
        of "journal ''server/src'' relativeImportPath_spec (\<lambda>n. None)" "''tag''" "''Tag''"]
      fields
    by (simp add: journal_def relativeImportPath_spec_def removeExt_def
        normalizeSeparators_def)
qed

subsection \<open>Destination paths\<close>



subsection \<open>Order of the pipeline\<close>




subsection \<open>Errors\<close>

text \<open>
  C9, as stated, fails: for an entity without a password field, the class declaration
  is never looked up, and both artifacts are produced from files in which the lookup of
  the service class and of the base class would fail.
\<close>

theorem missing_class_counterexample:
  "(\<forall>file. getClassDeclarationById
              (journal ''server/src'' relativeImportPath_spec (\<lambda>n. None)) file
              (createServiceId ''User'') = Inl (TargetNotFound ''UserService''))
   \<and> (\<forall>file. getClassDeclarationById
              (journal ''server/src'' relativeImportPath_spec (\<lambda>n. None)) file
              (createServiceBaseId ''User'') = Inl (TargetNotFound ''UserServiceBase''))
   \<and> (\<exists>serviceModule serviceBaseModule.
        createServiceModules (journal ''server/src'' relativeImportPath_spec (\<lambda>n. None))
          ''user'' ''User'' (Entity [\<lparr>name = ''username'', sensitive = False\<rparr>])
        = Inr [serviceModule, serviceBaseModule]
      \<and> path serviceModule = ''server/src/user/user.service.ts''
      \<and> path serviceBaseModule = ''server/src/user/base/user.service.base.ts'')"
  by (simp add: journal_run isPasswordField_def)
     (simp add: journal_def createServiceId_def createServiceBaseId_def)

text \<open>
  C9, amended. For every entity with at least one password field and every
  implementation of the utilities: if the lookup of the class declaration fails, by the
  service identifier in the interpolated service template or by the base identifier in
  the interpolated base template, then \<^verbatim>\<open>createServiceModules\<close> fails with an error
  and produces no artifact.
\<close>

theorem missing_class_fails_with_password_fields:
  assumes "filter isPasswordField (Entity.fields entity) \<noteq> []"
      and "mapping = createServiceModules_mapping entityName entityType
                       (filter isPasswordField (Entity.fields entity))"
      and "file = addImports U
                    (removeTSClassDeclares U
                       (interpolate U (readFile U ''./service.template.ts'') mapping))
                    [importNames U [createServiceBaseId entityType]
                       (relativeImportPath U
                          (SRC_DIRECTORY U @ ''/'' @ entityName @ ''/'' @ entityName
                             @ ''.service.ts'')
                          (SRC_DIRECTORY U @ ''/'' @ entityName @ ''/base/'' @ entityName
                             @ ''.service.base.ts''))]"
      and "baseFile = removeTSClassDeclares U
                        (interpolate U (readFile U ''./service.base.template.ts'') mapping)"
      and "getClassDeclarationById U file (createServiceId entityType) = Inl err
           \<or> getClassDeclarationById U baseFile (createServiceBaseId entityType) = Inl err"
  shows "\<exists>err'. createServiceModules U entityName entityType entity = Inl err'"
proof (cases "getClassDeclarationById U file (createServiceId entityType)")
  case (Inl e)
  then have "createServiceModules U entityName entityType entity = Inl e"
    using assms(1-3)
    by (simp add: createServiceModules_Inl_iff createServiceModule_Inl_iff Let_def
        serviceTemplatePath_def)
  then show ?thesis by blast
next
  case (Inr r)
  with assms(5)
  have base: "getClassDeclarationById U baseFile (createServiceBaseId entityType) = Inl err"
    by simp
  show ?thesis
  proof (cases "createServiceModule U entityName mapping
                  (filter isPasswordField (Entity.fields entity))
                  (createServiceId entityType) (createServiceBaseId entityType)")
    case (Inl e)
    then have "createServiceModules U entityName entityType entity = Inl e"
      using assms(2) by (simp add: createServiceModules_Inl_iff Let_def)
    then show ?thesis by blast
  next
    case (Inr m)
    then have "createServiceModules U entityName entityType entity = Inl err"
      using assms(1,2,4) base
      by (simp add: createServiceModules_Inl_iff createServiceBaseModule_Inl_iff Let_def
          serviceBaseTemplatePath_def)
    then show ?thesis by blast
  qed
qed

theorem missing_class_fails_with_password_fields_witness:
  "filter isPasswordField
     (Entity.fields (Entity [\<lparr>name = ''password'', sensitive = True\<rparr>])) \<noteq> []
   \<and> getClassDeclarationById
       (journal ''server/src'' relativeImportPath_spec (map_of [(''UserService'', [])]))
       [ReadFile ''./service.base.template.ts'',
        Interpolate (createServiceModules_mapping ''user'' ''User''
                       [\<lparr>name = ''password'', sensitive = True\<rparr>]),
        RemoveTSClassDeclares]
       (createServiceBaseId ''User'') = Inl (TargetNotFound ''UserServiceBase'')
   \<and> (\<exists>err. createServiceModules
                (journal ''server/src'' relativeImportPath_spec (map_of [(''UserService'', [])]))
                ''user'' ''User'' (Entity [\<lparr>name = ''password'', sensitive = True\<rparr>])
              = Inl err)"
proof -
  have fields: "filter isPasswordField
     (Entity.fields (Entity [\<lparr>name = ''password'', sensitive = True\<rparr>])) \<noteq> []"
    by (simp add: isPasswordField_def)
  have lookup: "getClassDeclarationById
       (journal ''server/src'' relativeImportPath_spec (map_of [(''UserService'', [])]))
       [ReadFile ''./service.base.template.ts'',
        Interpolate (createServiceModules_mapping ''user'' ''User''
                       [\<lparr>name = ''password'', sensitive = True\<rparr>]),
        RemoveTSClassDeclares]
       (createServiceBaseId ''User'') = Inl (TargetNotFound ''UserServiceBase'')"
    by (simp add: journal_def createServiceBaseId_def)
  have baseFile: "[ReadFile ''./service.base.template.ts'',
        Interpolate (createServiceModules_mapping ''user'' ''User''
                       [\<lparr>name = ''password'', sensitive = True\<rparr>]),
        RemoveTSClassDeclares]
      = removeTSClassDeclares
          (journal ''server/src'' relativeImportPath_spec (map_of [(''UserService'', [])]))
          (interpolate
             (journal ''server/src'' relativeImportPath_spec (map_of [(''UserService'', [])]))
             (readFile
                (journal ''server/src'' relativeImportPath_spec (map_of [(''UserService'', [])]))
                ''./service.base.template.ts'')
             (createServiceModules_mapping ''user'' ''User''
                (filter isPasswordField
                   (Entity.fields (Entity [\<lparr>name = ''password'', sensitive = True\<rparr>])))))"
    by (simp add: journal_def isPasswordField_def)
  show ?thesis
    using missing_class_fails_with_password_fields[OF fields refl refl baseFile disjI2,
        OF lookup] fields lookup
    by simp
qed



end
